theory Spec2Isabelle
  imports Main "HOL-Library.AList" "HOL-Library.Word"
begin

section \<open>The FlowTest server: request proxy and collection import\<close>

text \<open>
  The development embeds \<^verbatim>\<open>src/server/src/index.ts\<close>: the handler of
  \<^verbatim>\<open>PUT /api/v1/request\<close> (the request proxy), the handler of
  \<^verbatim>\<open>POST /api/v1/collection\<close> with \<^verbatim>\<open>App.createCollection\<close> (the collection
  import), and the two private helpers \<^verbatim>\<open>newAbortSignal\<close> and
  \<^verbatim>\<open>convertBase64ToBlob\<close>.

  The libraries the handlers call (\<^verbatim>\<open>fetch\<close>, \<^verbatim>\<open>axios\<close>, \<^verbatim>\<open>SwaggerParser\<close>,
  \<^verbatim>\<open>JsonRefs\<close>, the TypeORM repository) are not code of the repository. Each is a
  parameter of the model: a function from the argument the handler passes to the value
  the awaited call yields, \<open>Inl\<close> an error that is thrown, \<open>Inr\<close> a value. Every
  handler returns, next to its reply, the trace of the external calls it made, in order.
  \<^verbatim>\<open>res.send\<close> is Express's; what it does with the values the handlers pass to it
  decides the reply, so it is written out (section on sending a reply).
\<close>

subsection \<open>JavaScript values\<close>

type_synonym byte = "8 word"

datatype blob = Blob (blob_type: string) (blob_bytes: "byte list")

text \<open>
  The values the proxy handles: what \<^verbatim>\<open>JSON.parse\<close> produces for the request body
  (with \<open>JUndefined\<close> for an absent property), the \<^verbatim>\<open>FormData\<close> the multipart branch
  builds (one entry per \<^verbatim>\<open>append(name, blob, filename)\<close>, holding the arguments as
  they were passed), and the \<^verbatim>\<open>AbortSignal\<close> of \<^verbatim>\<open>newAbortSignal\<close> (with the delay in
  milliseconds after which it aborts). An object is the list of its own properties in
  insertion order; its keys are distinct, as \<^verbatim>\<open>JSON.parse\<close> leaves them.
\<close>

datatype jsval =
    JUndefined
  | JNull
  | JBool bool
  | JNum int
  | JStr string
  | JArr "jsval list"
  | JObj "(string \<times> jsval) list"
  | JFormData "(jsval \<times> blob \<times> jsval) list"
  | JAbortSignal nat

record axios_response =
  resp_status :: int
  resp_headers :: "(string \<times> string) list"
  resp_data :: jsval

text \<open>
  The \<^verbatim>\<open>http.ClientRequest\<close> that \<^verbatim>\<open>axios\<close> stores as \<^verbatim>\<open>error.request\<close>, named by
  its host. It is a circular object: the handler can test that it is there, and
  \<^verbatim>\<open>send\<close> cannot turn it into JSON.
\<close>

datatype client_request = ClientRequest string

text \<open>
  A thrown value, with the four properties the \<^verbatim>\<open>catch\<close> block of the proxy reads.
  An absent property is \<open>None\<close>.
\<close>

record js_error =
  code :: "string option"
  response :: "axios_response option"
  request :: "client_request option"
  message :: "string option"

text \<open>
  The \<^verbatim>\<open>TypeError\<close> of a property read on \<^verbatim>\<open>undefined\<close> or \<^verbatim>\<open>null\<close>. It has a
  message and none of \<^verbatim>\<open>code\<close>, \<^verbatim>\<open>response\<close>, \<^verbatim>\<open>request\<close>. The wording of the
  message is the engine's.
\<close>

definition type_error :: "string \<Rightarrow> string \<Rightarrow> js_error" where
  "type_error what k =
     \<lparr>code = None, response = None, request = None,
      message = Some (''Cannot read properties of '' @ what @ '' (reading '' @
                      [CHR 0x27] @ k @ [CHR 0x27] @ '')'')\<rparr>"

text \<open>
  \<^verbatim>\<open>v[k]\<close> for the keys the handler reads (\<^verbatim>\<open>headers\<close>, \<^verbatim>\<open>Content-type\<close>,
  \<^verbatim>\<open>data\<close>, \<^verbatim>\<open>value\<close>, \<^verbatim>\<open>key\<close>, \<^verbatim>\<open>name\<close>): none of them is a property of a
  string, a number, a boolean or an array, so the read yields \<^verbatim>\<open>undefined\<close> there.
\<close>

fun get_prop :: "jsval \<Rightarrow> string \<Rightarrow> js_error + jsval" where
  "get_prop JUndefined k = Inl (type_error ''undefined'' k)"
| "get_prop JNull k = Inl (type_error ''null'' k)"
| "get_prop (JObj kvs) k = Inr (case map_of kvs k of None \<Rightarrow> JUndefined | Some v \<Rightarrow> v)"
| "get_prop _ k = Inr JUndefined"

text \<open>
  \<^verbatim>\<open>o[k] = v\<close> on an object: an existing property keeps its place, a new one goes
  last. The handler assigns only to \<^verbatim>\<open>req.body\<close> after it has read
  \<^verbatim>\<open>req.body.headers['Content-type']\<close>, so the target is an object
  (lemma \<open>headers_read_object\<close>); any other target is left as it is.
\<close>

fun set_prop :: "jsval \<Rightarrow> string \<Rightarrow> jsval \<Rightarrow> jsval" where
  "set_prop (JObj kvs) k v = JObj (AList.update k v kvs)"
| "set_prop b k v = b"

text \<open>
  The own enumerable properties an object spread \<^verbatim>\<open>{...v}\<close> copies. The spread of the
  handler is reached with an object only (lemma \<open>headers_read_object\<close>).
\<close>

fun own_entries :: "jsval \<Rightarrow> (string \<times> jsval) list" where
  "own_entries (JObj kvs) = kvs"
| "own_entries _ = []"

text \<open>
  JavaScript truthiness of an optional string: \<^verbatim>\<open>undefined\<close> and the empty string
  are falsy.
\<close>

fun truthy_string :: "string option \<Rightarrow> bool" where
  "truthy_string None = False"
| "truthy_string (Some s) = (s \<noteq> [])"

subsection \<open>The application object and its collaborators\<close>

record app =
  port :: nat
  timeout :: nat

text \<open>The constructor: \<^verbatim>\<open>this.port = 3500; this.timeout = 60000\<close>.\<close>

definition new_app :: app where
  "new_app = \<lparr>port = 3500, timeout = 60000\<rparr>"

text \<open>
  \<^verbatim>\<open>fetch(x)\<close> yields a response or throws; \<^verbatim>\<open>response.blob()\<close> yields a blob or
  throws. \<^verbatim>\<open>axios(options)\<close> yields a response or throws.
\<close>

datatype fetch_response = FetchResponse (read_blob: "js_error + blob")

record env =
  fetch :: "jsval \<Rightarrow> js_error + fetch_response"
  axios :: "jsval \<Rightarrow> js_error + axios_response"

datatype event = FetchCall jsval | AxiosCall jsval

text \<open>
  \<^verbatim>\<open>newAbortSignal\<close>: a signal that aborts after \<^verbatim>\<open>this.timeout || 0\<close> milliseconds.
\<close>

definition newAbortSignal :: "app \<Rightarrow> jsval" where
  "newAbortSignal a = JAbortSignal (if timeout a \<noteq> 0 then timeout a else 0)"

text \<open>\<^verbatim>\<open>convertBase64ToBlob\<close>: \<^verbatim>\<open>fetch\<close> the reference, then read the blob.\<close>

definition convertBase64ToBlob :: "env \<Rightarrow> jsval \<Rightarrow> js_error + blob" where
  "convertBase64ToBlob w base64 =
     (case fetch w base64 of
        Inl e \<Rightarrow> Inl e
      | Inr resp \<Rightarrow> read_blob resp)"

subsection \<open>Sending a reply\<close>

text \<open>
  \<^verbatim>\<open>res.status(s).send(x)\<close> is Express's, not the repository's. The program runs on
  Express 4, where \<^verbatim>\<open>send\<close>
  \<^item> given a number takes it as the status: the status becomes the number and the body
    its status text (\<^verbatim>\<open>Created\<close> for 201, \<^verbatim>\<open>Not Found\<close> for 404);
  \<^item> sends a string as it is, and \<^verbatim>\<open>null\<close> or \<^verbatim>\<open>undefined\<close> as an empty body;
  \<^item> sends any other value as the JSON text \<^verbatim>\<open>JSON.stringify\<close> gives, which for an
    error object is the error's JSON form, and which throws a \<^verbatim>\<open>TypeError\<close> for the
    \<^verbatim>\<open>http.ClientRequest\<close> of \<^verbatim>\<open>error.request\<close>, a circular structure;
  \<^item> sends no body with the statuses 204, 205 and 304;
  and where Node refuses to write a status outside 100..999 with a \<^verbatim>\<open>RangeError\<close>,
  thrown out of \<^verbatim>\<open>send\<close>. Numbers are integers here.
\<close>

datatype payload =
    SentText string
  | SentAsJson jsval
  | SentError js_error
  | SentStatusMessage int

record reply =
  reply_status :: int
  reply_body :: payload

text \<open>What the handler passes to \<^verbatim>\<open>send\<close>.\<close>

datatype sendable =
    Data jsval
  | ErrorObject js_error
  | RequestObject client_request

text \<open>Decimal digits, for the message of the \<^verbatim>\<open>RangeError\<close>.\<close>

definition digit_char :: "nat \<Rightarrow> char" where
  "digit_char d = ''0123456789'' ! d"

fun digits :: "nat \<Rightarrow> string" where
  "digits n = (if 10 \<le> n then digits (n div 10) @ [digit_char (n mod 10)] else [digit_char n])"

definition show_int :: "int \<Rightarrow> string" where
  "show_int i = (if i < 0 then CHR ''-'' # digits (nat (- i)) else digits (nat i))"

definition invalid_status_code :: "int \<Rightarrow> js_error" where
  "invalid_status_code s =
     \<lparr>code = Some ''ERR_HTTP_INVALID_STATUS_CODE'', response = None, request = None,
      message = Some (''Invalid status code: '' @ show_int s)\<rparr>"

text \<open>
  The \<^verbatim>\<open>TypeError\<close> of \<^verbatim>\<open>JSON.stringify\<close> on a circular structure. The engine's
  message goes on to name the objects of the cycle.
\<close>

definition circular_structure :: js_error where
  "circular_structure =
     \<lparr>code = None, response = None, request = None,
      message = Some ''Converting circular structure to JSON''\<rparr>"

text \<open>The end of \<^verbatim>\<open>send\<close>: the status is checked and the head and the body are written.\<close>

definition end_response :: "int \<Rightarrow> payload \<Rightarrow> js_error + reply" where
  "end_response s b =
     (if s < 100 \<or> 999 < s then Inl (invalid_status_code s)
      else Inr \<lparr>reply_status = s,
                reply_body = (if s = 204 \<or> s = 205 \<or> s = 304 then SentText [] else b)\<rparr>)"

text \<open>The body \<^verbatim>\<open>send\<close> makes of a value that is not a number.\<close>

fun sent_body :: "jsval \<Rightarrow> payload" where
  "sent_body (JStr t) = SentText t"
| "sent_body JNull = SentText []"
| "sent_body JUndefined = SentText []"
| "sent_body x = SentAsJson x"

fun send :: "int \<Rightarrow> sendable \<Rightarrow> js_error + reply" where
  "send s (Data (JNum n)) = end_response n (SentStatusMessage n)"
| "send s (Data x) = end_response s (sent_body x)"
| "send s (ErrorObject e) = end_response s (SentError e)"
| "send s (RequestObject q) = Inl circular_structure"

subsection \<open>The request proxy\<close>

text \<open>
  The body of the \<^verbatim>\<open>if\<close>: it builds a \<^verbatim>\<open>FormData\<close> of one entry from
  \<^verbatim>\<open>req.body.data\<close> and stores it as \<^verbatim>\<open>req.body.data\<close>. The result is the trace and
  either the thrown error or the updated body.
\<close>

definition multipart_branch :: "env \<Rightarrow> jsval \<Rightarrow> event list \<times> (js_error + jsval)" where
  "multipart_branch w body =
     (case get_prop body ''data'' of
        Inl e \<Rightarrow> ([], Inl e)
      | Inr d \<Rightarrow>
     (case get_prop d ''value'' of
        Inl e \<Rightarrow> ([], Inl e)
      | Inr v \<Rightarrow>
     (case convertBase64ToBlob w v of
        Inl e \<Rightarrow> ([FetchCall v], Inl e)
      | Inr file \<Rightarrow>
     (case get_prop d ''key'' of
        Inl e \<Rightarrow> ([FetchCall v], Inl e)
      | Inr k \<Rightarrow>
     (case get_prop d ''name'' of
        Inl e \<Rightarrow> ([FetchCall v], Inl e)
      | Inr n \<Rightarrow>
          ([FetchCall v], Inr (set_prop body ''data'' (JFormData [(k, file, n)]))))))))"

text \<open>
  The \<^verbatim>\<open>try\<close> block. \<^verbatim>\<open>===\<close> compares with the string
  \<^verbatim>\<open>'multipart/form-data'\<close>; the options are the spread of the body with
  \<^verbatim>\<open>signal\<close> set last. What \<^verbatim>\<open>send\<close> throws is thrown inside the \<^verbatim>\<open>try\<close>.
\<close>

definition try_block :: "app \<Rightarrow> env \<Rightarrow> jsval \<Rightarrow> event list \<times> (js_error + reply)" where
  "try_block a w body =
     (case get_prop body ''headers'' of
        Inl e \<Rightarrow> ([], Inl e)
      | Inr hs \<Rightarrow>
     (case get_prop hs ''Content-type'' of
        Inl e \<Rightarrow> ([], Inl e)
      | Inr ct \<Rightarrow>
     (case (if ct = JStr ''multipart/form-data'' then multipart_branch w body
            else ([], Inr body)) of
        (tr, Inl e) \<Rightarrow> (tr, Inl e)
      | (tr, Inr body') \<Rightarrow>
          (let options = JObj (AList.update ''signal'' (newAbortSignal a) (own_entries body'))
           in case axios w options of
                Inl e \<Rightarrow> (tr @ [AxiosCall options], Inl e)
              | Inr result \<Rightarrow>
                  (tr @ [AxiosCall options], send 200 (Data (resp_data result)))))))"

text \<open>
  The \<^verbatim>\<open>catch\<close> block: the first branch whose test holds sends. \<open>Inl\<close> is what
  \<^verbatim>\<open>send\<close> throws there, out of the handler.
\<close>

definition catch_block :: "js_error \<Rightarrow> js_error + reply" where
  "catch_block error =
     (if code error = Some ''ERR_CANCELED'' then send 408 (ErrorObject error)
      else case response error of
        Some r \<Rightarrow> send (resp_status r) (Data (resp_data r))
      | None \<Rightarrow>
     (case request error of
        Some q \<Rightarrow> send 503 (RequestObject q)
      | None \<Rightarrow>
     (if truthy_string (message error) then send 400 (Data (JStr (the (message error))))
      else send 500 (ErrorObject error))))"

text \<open>
  How a run of the handler ends: with a reply, or with an error thrown out of the
  \<^verbatim>\<open>catch\<close> block. The handler is an \<^verbatim>\<open>async\<close> function and nothing handles its
  rejection: no reply is sent, and Node ends the process.
\<close>

datatype outcome =
    Replied reply
  | Unhandled js_error

text \<open>The handler of \<^verbatim>\<open>PUT /api/v1/request\<close>: the trace and how the run ends.\<close>

definition put_request :: "app \<Rightarrow> env \<Rightarrow> jsval \<Rightarrow> event list \<times> outcome" where
  "put_request a w body =
     (case try_block a w body of
        (tr, Inr r) \<Rightarrow> (tr, Replied r)
      | (tr, Inl error) \<Rightarrow>
          (case catch_block error of
             Inr r \<Rightarrow> (tr, Replied r)
           | Inl thrown \<Rightarrow> (tr, Unhandled thrown)))"

subsection \<open>The collection import\<close>







subsection \<open>The collection builder\<close>

text \<open>
  Modelled from the spec: \<^verbatim>\<open>CollectionUtil.parse\<close> (\<^verbatim>\<open>./collection-util\<close>) is called
  by \<^verbatim>\<open>createCollection\<close> but its file is not among the sources. The location of a
  parameter is one of path, query, header, cookie (section 3, RequestNode).
\<close>

datatype param_location = InPath | InQuery | InHeader | InCookie

text \<open>
  Modelled from the spec: a parameter has a name, a location, a required flag and a
  schema (section 3, RequestNode).
\<close>

record parameter =
  param_name :: string
  param_in :: param_location
  param_required :: bool
  param_schema :: jsval

text \<open>
  Modelled from the spec: one operation of the resolved document, with what section 4.2
  extracts from it. \<open>op_invocable\<close> is false for an operation shape that cannot be a
  node (a callback-only operation with no direct invocation path).
\<close>

record operation =
  op_method :: string
  op_summary :: string
  op_parameters :: "parameter list"
  op_request_body :: "(string \<times> jsval) option"
  op_responses :: "(string \<times> jsval) list"
  op_invocable :: bool

text \<open>
  Modelled from the spec: a path of the resolved document with the parameters declared
  at the path-item level and its operations, in the order of the document.
\<close>

record path_item =
  item_path :: string
  item_parameters :: "parameter list"
  item_operations :: "operation list"

type_synonym resolved_spec = "path_item list"

text \<open>
  Modelled from the spec: the RequestNode of section 3: id, method, path, summary, the
  ordered parameters, the optional request body (content type and schema) and the
  response shape by status code.
\<close>

record 'id request_node =
  node_id :: 'id
  node_method :: string
  node_path :: string
  node_summary :: string
  node_parameters :: "parameter list"
  node_request_body :: "(string \<times> jsval) option"
  node_responses :: "(string \<times> jsval) list"

text \<open>
  Modelled from the spec: two parameters collide when they agree on name and location
  (section 4.2).
\<close>

definition same_parameter :: "parameter \<Rightarrow> parameter \<Rightarrow> bool" where
  "same_parameter p q = (param_name p = param_name q \<and> param_in p = param_in q)"

text \<open>
  Modelled from the spec: the parameters of the path item are merged with those of the
  operation, the operation's taking precedence on a collision (section 4.2).
\<close>

definition merge_parameters :: "parameter list \<Rightarrow> parameter list \<Rightarrow> parameter list" where
  "merge_parameters item_level op_level =
     filter (\<lambda>p. \<not> list_ex (same_parameter p) op_level) item_level @ op_level"

text \<open>
  Modelled from the spec: the node of one (path, method) pair. The specification fixes
  the id only as a function of method and path, so that function is the parameter
  \<open>mk_id\<close>.
\<close>

definition node_of ::
  "(string \<Rightarrow> string \<Rightarrow> 'id) \<Rightarrow> path_item \<Rightarrow> operation \<Rightarrow> 'id request_node" where
  "node_of mk_id item op =
     \<lparr>node_id = mk_id (op_method op) (item_path item),
      node_method = op_method op,
      node_path = item_path item,
      node_summary = op_summary op,
      node_parameters = merge_parameters (item_parameters item) (op_parameters op),
      node_request_body = op_request_body op,
      node_responses = op_responses op\<rparr>"

text \<open>
  Modelled from the spec: \<^verbatim>\<open>build\<close> of section 4.2 goes through every (path, method)
  pair in the order of the document and skips the operations that cannot be a node.
\<close>

definition build ::
  "(string \<Rightarrow> string \<Rightarrow> 'id) \<Rightarrow> resolved_spec \<Rightarrow> 'id request_node list" where
  "build mk_id spec =
     concat (map (\<lambda>item. map (node_of mk_id item) (filter op_invocable (item_operations item)))
               spec)"

text \<open>
  The (method, path) pairs of a resolved document that give a node, in the order of the
  document: what the ids are stated against.
\<close>

definition operations_of :: "resolved_spec \<Rightarrow> (string \<times> string) list" where
  "operations_of spec =
     concat (map (\<lambda>item. map (\<lambda>op. (op_method op, item_path item))
                             (filter op_invocable (item_operations item)))
               spec)"

subsection \<open>Sample requests, errors and environments\<close>

text \<open>
  Concrete inputs at which the theorems below are evaluated. \<open>ex_env f r\<close> is an
  environment in which \<^verbatim>\<open>fetch\<close> yields \<open>f\<close> and \<^verbatim>\<open>axios\<close> yields \<open>r\<close>, whatever
  they are asked; \<open>ex_import_env v r\<close> is an import environment in which validation
  yields \<open>v\<close> and reference resolution yields \<open>r\<close>. The errors have the shapes the
  comments of the \<^verbatim>\<open>catch\<close> block describe: a cancelled call, a response outside 2xx,
  a request without a response, an error while setting up the request, and anything
  else; \<open>ex_numeric_response\<close> is a response outside 2xx whose JSON body is the
  number 201, and \<open>ex_timeout_exceeded\<close> is the error of a call whose own
  \<^verbatim>\<open>timeout\<close> of 10 ms, set in \<open>ex_timeout_request\<close>, has run out.
  \<open>ex_two_parts\<close> is a request whose \<^verbatim>\<open>data\<close> is a list of two parts, a text
  field and a file; \<open>ex_other_casing\<close> spells the header \<^verbatim>\<open>Content-Type\<close>.
\<close>

definition ex_env :: "(js_error + fetch_response) \<Rightarrow> (js_error + axios_response) \<Rightarrow> env" where
  "ex_env f r = \<lparr>fetch = (\<lambda>_. f), axios = (\<lambda>_. r)\<rparr>"

definition ex_request :: jsval where
  "ex_request =
     JObj [(''method'', JStr ''post''), (''url'', JStr ''http://upstream.test/pets''),
           (''headers'', JObj [(''Content-type'', JStr ''application/json'')]),
           (''data'', JObj [(''name'', JStr ''rex'')])]"

definition ex_options :: jsval where
  "ex_options =
     JObj [(''method'', JStr ''post''), (''url'', JStr ''http://upstream.test/pets''),
           (''headers'', JObj [(''Content-type'', JStr ''application/json'')]),
           (''data'', JObj [(''name'', JStr ''rex'')]),
           (''signal'', JAbortSignal 60000)]"

definition ex_blob :: blob where
  "ex_blob = Blob ''image/png'' [0x89, 0x50, 0x4E, 0x47]"

definition ex_upload :: jsval where
  "ex_upload =
     JObj [(''method'', JStr ''post''), (''url'', JStr ''http://upstream.test/upload''),
           (''headers'', JObj [(''Content-type'', JStr ''multipart/form-data'')]),
           (''data'', JObj [(''key'', JStr ''file''),
                            (''value'', JStr ''data:image/png;base64,iVBORw==''),
                            (''name'', JStr ''f.png'')])]"

definition ex_upload_options :: jsval where
  "ex_upload_options =
     JObj [(''method'', JStr ''post''), (''url'', JStr ''http://upstream.test/upload''),
           (''headers'', JObj [(''Content-type'', JStr ''multipart/form-data'')]),
           (''data'', JFormData [(JStr ''file'', ex_blob, JStr ''f.png'')]),
           (''signal'', JAbortSignal 60000)]"

definition ex_two_parts :: jsval where
  "ex_two_parts =
     JObj [(''method'', JStr ''post''), (''url'', JStr ''http://upstream.test/upload''),
           (''headers'', JObj [(''Content-type'', JStr ''multipart/form-data'')]),
           (''data'', JArr [JObj [(''key'', JStr ''key''), (''value'', JStr ''value'')],
                            JObj [(''key'', JStr ''file''),
                                  (''value'', JStr ''data:image/png;base64,iVBORw==''),
                                  (''name'', JStr ''f.png'')]])]"

definition ex_other_casing :: jsval where
  "ex_other_casing =
     JObj [(''method'', JStr ''post''), (''url'', JStr ''http://upstream.test/upload''),
           (''headers'', JObj [(''Content-Type'', JStr ''multipart/form-data'')]),
           (''data'', JObj [(''key'', JStr ''file''),
                            (''value'', JStr ''data:image/png;base64,iVBORw==''),
                            (''name'', JStr ''f.png'')])]"

definition ex_fetch_failed :: js_error where
  "ex_fetch_failed =
     \<lparr>code = None, response = None, request = None, message = Some ''fetch failed''\<rparr>"


definition ex_refused :: js_error where
  "ex_refused =
     \<lparr>code = Some ''ECONNREFUSED'', response = None,
      request = Some (ClientRequest ''upstream.test''),
      message = Some ''connect ECONNREFUSED 10.0.0.1:80''\<rparr>"

definition ex_numeric_response :: js_error where
  "ex_numeric_response =
     \<lparr>code = Some ''ERR_BAD_RESPONSE'',
      response = Some \<lparr>resp_status = 500, resp_headers = [(''content-type'', ''application/json'')],
                       resp_data = JNum 201\<rparr>,
      request = Some (ClientRequest ''upstream.test''),
      message = Some ''Request failed with status code 500''\<rparr>"

definition ex_timeout_request :: jsval where
  "ex_timeout_request =
     JObj [(''method'', JStr ''get''), (''url'', JStr ''http://slow.test/pets''),
           (''headers'', JObj []), (''timeout'', JNum 10)]"

definition ex_timeout_options :: jsval where
  "ex_timeout_options =
     JObj [(''method'', JStr ''get''), (''url'', JStr ''http://slow.test/pets''),
           (''headers'', JObj []), (''timeout'', JNum 10),
           (''signal'', JAbortSignal 60000)]"

definition ex_timeout_exceeded :: js_error where
  "ex_timeout_exceeded =
     \<lparr>code = Some ''ECONNABORTED'', response = None,
      request = Some (ClientRequest ''slow.test''),
      message = Some ''timeout of 10ms exceeded''\<rparr>"





definition ex_created :: axios_response where
  "ex_created =
     \<lparr>resp_status = 201, resp_headers = [(''location'', ''/pets/7'')],
      resp_data = JStr ''created''\<rparr>"




definition ex_operation :: "string \<Rightarrow> string \<Rightarrow> bool \<Rightarrow> operation" where
  "ex_operation m s i =
     \<lparr>op_method = m, op_summary = s, op_parameters = [], op_request_body = None,
      op_responses = [(''200'', JObj [])], op_invocable = i\<rparr>"

definition ex_spec :: "string \<Rightarrow> resolved_spec" where
  "ex_spec s =
     [\<lparr>item_path = ''/pets'', item_parameters = [],
       item_operations = [ex_operation ''get'' s True, ex_operation ''post'' s True]\<rparr>,
      \<lparr>item_path = ''/pets/{id}'', item_parameters = [],
       item_operations = [ex_operation ''delete'' s False, ex_operation ''get'' s True]\<rparr>]"

section \<open>Properties of the request proxy\<close>

subsection \<open>The shape of a run\<close>

lemma headers_read_object:
  "get_prop body k = Inr hs \<Longrightarrow> get_prop hs k' = Inr ct \<Longrightarrow> \<exists>kvs. body = JObj kvs"
  by (cases body) auto

lemma get_prop_same_object:
  "get_prop d k = Inr v \<Longrightarrow> \<exists>v'. get_prop d k' = Inr v'"
  by (cases d) auto

lemma send_not_number:
  "\<forall>n. x \<noteq> JNum n \<Longrightarrow> send s (Data x) = end_response s (sent_body x)"
  by (cases x) auto


lemma multipart_branch_trace:
  "AxiosCall options \<notin> set (fst (multipart_branch w body))"
  by (simp add: multipart_branch_def split: sum.splits)

lemma try_block_axios:
  assumes "AxiosCall options \<in> set (fst (try_block a w body))"
  shows "snd (try_block a w body) =
     (case axios w options of Inl e \<Rightarrow> Inl e
      | Inr result \<Rightarrow> send 200 (Data (resp_data result)))"
proof -
  obtain tr r where mb: "multipart_branch w body = (tr, r)" by (cases "multipart_branch w body")
  have "AxiosCall options \<notin> set tr" using multipart_branch_trace[of options w body] mb by simp
  then show ?thesis using assms mb
    by (auto simp: try_block_def Let_def split: sum.splits if_splits)
qed

lemma put_request_fst: "fst (put_request a w body) = fst (try_block a w body)"
  by (simp add: put_request_def split: prod.splits sum.splits)

lemma put_request_snd:
  "snd (put_request a w body) =
     (case snd (try_block a w body) of
        Inr r \<Rightarrow> Replied r
      | Inl e \<Rightarrow> (case catch_block e of Inr r \<Rightarrow> Replied r | Inl thrown \<Rightarrow> Unhandled thrown))"
  by (simp add: put_request_def split: prod.splits sum.splits)

lemma try_block_plain:
  assumes "get_prop body ''headers'' = Inr hs" and "get_prop hs ''Content-type'' = Inr ct"
    and "ct \<noteq> JStr ''multipart/form-data''"
  shows "try_block a w body =
    ([AxiosCall (JObj (AList.update ''signal'' (newAbortSignal a) (own_entries body)))],
     case axios w (JObj (AList.update ''signal'' (newAbortSignal a) (own_entries body))) of
       Inl e \<Rightarrow> Inl e
     | Inr result \<Rightarrow> send 200 (Data (resp_data result)))"
  using assms by (simp add: try_block_def Let_def split: sum.splits)

lemma try_block_multipart:
  assumes "get_prop body ''headers'' = Inr hs"
    and "get_prop hs ''Content-type'' = Inr (JStr ''multipart/form-data'')"
  shows "try_block a w body =
    (case multipart_branch w body of
       (tr, Inl e) \<Rightarrow> (tr, Inl e)
     | (tr, Inr body') \<Rightarrow>
        (tr @ [AxiosCall (JObj (AList.update ''signal'' (newAbortSignal a) (own_entries body')))],
         case axios w (JObj (AList.update ''signal'' (newAbortSignal a) (own_entries body'))) of
           Inl e \<Rightarrow> Inl e
         | Inr result \<Rightarrow> send 200 (Data (resp_data result))))"
  using assms by (simp add: try_block_def Let_def split: sum.splits prod.splits)

lemma multipart_branch_ok:
  assumes "get_prop body ''data'' = Inr d" and "get_prop d ''value'' = Inr v"
    and "convertBase64ToBlob w v = Inr file"
    and "get_prop d ''key'' = Inr k" and "get_prop d ''name'' = Inr n"
  shows "multipart_branch w body =
     ([FetchCall v], Inr (set_prop body ''data'' (JFormData [(k, file, n)])))"
  using assms by (simp add: multipart_branch_def)


lemma fetch_only_multipart:
  assumes "FetchCall v \<in> set (fst (try_block a w body))"
  shows "\<exists>hs. get_prop body ''headers'' = Inr hs \<and>
           get_prop hs ''Content-type'' = Inr (JStr ''multipart/form-data'')"
  using assms
  by (auto simp: try_block_def Let_def split: sum.splits if_splits prod.splits)

lemma options_data:
  "get_prop (JObj (AList.update ''signal'' s (own_entries (set_prop (JObj kvs) ''data'' fd))))
     ''data'' = Inr fd"
  by (simp add: update_conv')

lemma options_other:
  "k \<noteq> ''signal'' \<Longrightarrow>
   get_prop (JObj (AList.update ''signal'' s (own_entries (JObj kvs)))) k = get_prop (JObj kvs) k"
  by (simp add: update_conv')


lemma ex_trace:
  "fst (put_request new_app (ex_env f r) ex_request) = [AxiosCall ex_options]"
  by (simp add: put_request_fst try_block_def ex_request_def ex_options_def Let_def
      newAbortSignal_def new_app_def split: sum.splits)

lemma ex_try:
  "snd (try_block new_app (ex_env f r) ex_request) =
     (case r of Inl e \<Rightarrow> Inl e | Inr result \<Rightarrow> send 200 (Data (resp_data result)))"
  using try_block_axios[of ex_options new_app "ex_env f r" ex_request] ex_trace[of f r]
  by (simp add: put_request_fst ex_env_def)

lemma ex_timeout_trace:
  "fst (put_request new_app (ex_env f r) ex_timeout_request) = [AxiosCall ex_timeout_options]"
  by (simp add: put_request_fst try_block_def ex_timeout_request_def ex_timeout_options_def
      Let_def newAbortSignal_def new_app_def split: sum.splits)

lemma ex_timeout_try:
  "snd (try_block new_app (ex_env f r) ex_timeout_request) =
     (case r of Inl e \<Rightarrow> Inl e | Inr result \<Rightarrow> send 200 (Data (resp_data result)))"
  using try_block_axios[of ex_timeout_options new_app "ex_env f r" ex_timeout_request]
    ex_timeout_trace[of f r]
  by (simp add: put_request_fst ex_env_def)

lemma ex_upload_trace:
  "fst (put_request new_app (ex_env (Inr (FetchResponse (Inr ex_blob))) r) ex_upload) =
     [FetchCall (JStr ''data:image/png;base64,iVBORw==''), AxiosCall ex_upload_options]"
  by (simp add: put_request_fst try_block_def multipart_branch_def convertBase64ToBlob_def
      ex_env_def ex_upload_def ex_upload_options_def Let_def newAbortSignal_def new_app_def
      split: sum.splits)

subsection \<open>Outcomes of the proxy\<close>

text \<open>
  Claim C1 asks that an upstream response outside 2xx be answered with the upstream's
  exact status and body, and that the reply for a transport failure be kept for the
  case of no response. The handler passes the upstream's body to \<^verbatim>\<open>send\<close>, which
  takes a number as the status: an upstream that answers 500 with the JSON body 201 is
  answered with 201 and its status text. And the reply for a transport failure is never
  sent: \<^verbatim>\<open>send\<close> throws on the request object, and the run ends without a reply.
\<close>

theorem upstream_numeric_body_reply:
  "put_request new_app (ex_env (Inl ex_fetch_failed) (Inl ex_numeric_response)) ex_request =
     ([AxiosCall ex_options],
      Replied \<lparr>reply_status = 201, reply_body = SentStatusMessage 201\<rparr>) \<and>
   put_request new_app (ex_env (Inl ex_fetch_failed) (Inl ex_refused)) ex_request =
     ([AxiosCall ex_options], Unhandled circular_structure)"
proof -
  have "catch_block ex_numeric_response =
      Inr \<lparr>reply_status = 201, reply_body = SentStatusMessage 201\<rparr>"
    by (simp add: catch_block_def ex_numeric_response_def end_response_def)
  moreover have "catch_block ex_refused = Inl circular_structure"
    by (simp add: catch_block_def ex_refused_def)
  ultimately show ?thesis
    using ex_trace ex_try
    by (simp add: prod_eq_iff put_request_snd)
qed




text \<open>
  Claim C3 asks that a call whose per-call deadline runs out be cancelled and answered
  with the timeout outcome. A request's own \<^verbatim>\<open>timeout\<close> is passed on to \<^verbatim>\<open>axios\<close>
  next to the server's signal of 60000 ms. When it runs out \<^verbatim>\<open>axios\<close> throws an error
  with code \<^verbatim>\<open>ECONNABORTED\<close> that carries the request and no response; the handler
  takes the branch of \<^verbatim>\<open>error.request\<close>, where \<^verbatim>\<open>send\<close> throws: no 408 is sent, the
  run ends without a reply.
\<close>

theorem request_timeout_elapsed:
  "get_prop ex_timeout_request ''timeout'' = Inr (JNum 10) \<and>
   put_request new_app (ex_env (Inl ex_fetch_failed) (Inl ex_timeout_exceeded))
     ex_timeout_request =
     ([AxiosCall
         (JObj [(''method'', JStr ''get''), (''url'', JStr ''http://slow.test/pets''),
                (''headers'', JObj []), (''timeout'', JNum 10),
                (''signal'', JAbortSignal 60000)])],
      Unhandled circular_structure)"
proof -
  have "catch_block ex_timeout_exceeded = Inl circular_structure"
    by (simp add: catch_block_def ex_timeout_exceeded_def)
  then have "put_request new_app (ex_env (Inl ex_fetch_failed) (Inl ex_timeout_exceeded))
      ex_timeout_request = ([AxiosCall ex_timeout_options], Unhandled circular_structure)"
    using ex_timeout_trace ex_timeout_try
    by (simp add: prod_eq_iff put_request_snd)
  then show ?thesis
    by (simp add: ex_timeout_options_def) (simp add: ex_timeout_request_def)
qed

text \<open>
  Claim C4, amended. When \<^verbatim>\<open>axios\<close> returns a response whose data is not a number,
  the reply has status 200 and carries the data: a string as it is, \<^verbatim>\<open>null\<close> as an
  empty body, any other value as JSON. The response's own status and headers are not
  forwarded. Nothing is stated here for data that is a number.
\<close>

theorem success_reply:
  "AxiosCall options \<in> set (fst (put_request a w body)) \<and> axios w options = Inr result \<and>
   (\<forall>n. resp_data result \<noteq> JNum n) \<longrightarrow>
     snd (put_request a w body) =
       Replied \<lparr>reply_status = 200, reply_body = sent_body (resp_data result)\<rparr>"
proof
  assume h: "AxiosCall options \<in> set (fst (put_request a w body)) \<and>
    axios w options = Inr result \<and> (\<forall>n. resp_data result \<noteq> JNum n)"
  then have "snd (try_block a w body) = send 200 (Data (resp_data result))"
    using try_block_axios[of options a w body] by (simp add: put_request_fst)
  then show "snd (put_request a w body) =
        Replied \<lparr>reply_status = 200, reply_body = sent_body (resp_data result)\<rparr>"
    using h by (simp add: put_request_snd send_not_number end_response_def)
qed

theorem success_reply_witness:
  "snd (put_request new_app (ex_env (Inl ex_fetch_failed) (Inr ex_created)) ex_request) =
     Replied \<lparr>reply_status = 200, reply_body = SentText ''created''\<rparr>"
proof -
  let ?w = "ex_env (Inl ex_fetch_failed) (Inr ex_created)"
  have "AxiosCall ex_options \<in> set (fst (put_request new_app ?w ex_request)) \<and>
      axios ?w ex_options = Inr ex_created \<and> (\<forall>n. resp_data ex_created \<noteq> JNum n)"
    by (simp add: ex_trace) (simp add: ex_env_def ex_created_def)
  then show ?thesis
    using success_reply[of ex_options new_app ?w ex_request ex_created]
    by (simp add: ex_created_def)
qed

text \<open>
  Claim C4 as stated fails: the upstream answers 201 and the reply has status 200.
\<close>

theorem success_status_counterexample:
  "resp_status ex_created = 201 \<and>
   snd (put_request new_app (ex_env (Inl ex_fetch_failed) (Inr ex_created)) ex_request) =
     Replied \<lparr>reply_status = 200, reply_body = SentText ''created''\<rparr>"
  by (simp add: put_request_snd ex_try) (simp add: ex_created_def end_response_def)

subsection \<open>The multipart branch\<close>



text \<open>
  Claim C8, amended. The multipart branch takes one part, the object \<^verbatim>\<open>req.body.data\<close>,
  and the form passed to \<^verbatim>\<open>axios\<close> holds exactly that part: the field name
  \<^verbatim>\<open>data.key\<close>, the blob read from \<^verbatim>\<open>data.value\<close> and the filename \<^verbatim>\<open>data.name\<close>,
  each unchanged. The encoding of the form into bytes is the HTTP library's.
\<close>

theorem multipart_single_part:
  assumes "get_prop body ''headers'' = Inr hs"
    and "get_prop hs ''Content-type'' = Inr (JStr ''multipart/form-data'')"
    and "get_prop body ''data'' = Inr d"
    and "get_prop d ''key'' = Inr k"
    and "get_prop d ''value'' = Inr v"
    and "get_prop d ''name'' = Inr n"
    and "fetch w v = Inr resp"
    and "read_blob resp = Inr file"
  shows "\<exists>options. fst (put_request a w body) = [FetchCall v, AxiosCall options] \<and>
           get_prop options ''data'' = Inr (JFormData [(k, file, n)])"
proof -
  obtain kvs where body: "body = JObj kvs"
    using headers_read_object[OF assms(1,2)] by blast
  have "convertBase64ToBlob w v = Inr file"
    using assms(7,8) by (simp add: convertBase64ToBlob_def)
  then have "multipart_branch w body =
      ([FetchCall v], Inr (set_prop body ''data'' (JFormData [(k, file, n)])))"
    using multipart_branch_ok[OF assms(3,5) _ assms(4,6)] by simp
  then show ?thesis
    using try_block_multipart[OF assms(1,2), of a w] options_data[of _ kvs]
    by (simp add: put_request_fst body)
qed

theorem multipart_single_part_witness:
  "\<exists>options.
     fst (put_request new_app (ex_env (Inr (FetchResponse (Inr ex_blob))) (Inr ex_created))
            ex_upload) =
       [FetchCall (JStr ''data:image/png;base64,iVBORw==''), AxiosCall options] \<and>
     get_prop options ''data'' = Inr (JFormData [(JStr ''file'', ex_blob, JStr ''f.png'')])"
proof -
  let ?d = "JObj [(''key'', JStr ''file''), (''value'', JStr ''data:image/png;base64,iVBORw==''),
                  (''name'', JStr ''f.png'')]"
  let ?hs = "JObj [(''Content-type'', JStr ''multipart/form-data'')]"
  let ?v = "JStr ''data:image/png;base64,iVBORw==''"
  let ?w = "ex_env (Inr (FetchResponse (Inr ex_blob))) (Inr ex_created)"
  have 1: "get_prop ex_upload ''headers'' = Inr ?hs" by (simp add: ex_upload_def)
  have 2: "get_prop ?hs ''Content-type'' = Inr (JStr ''multipart/form-data'')" by simp
  have 3: "get_prop ex_upload ''data'' = Inr ?d" by (simp add: ex_upload_def)
  have 4: "get_prop ?d ''key'' = Inr (JStr ''file'')" by simp
  have 5: "get_prop ?d ''value'' = Inr ?v" by simp
  have 6: "get_prop ?d ''name'' = Inr (JStr ''f.png'')" by simp
  have 7: "fetch ?w ?v = Inr (FetchResponse (Inr ex_blob))" by (simp add: ex_env_def)
  have 8: "read_blob (FetchResponse (Inr ex_blob)) = Inr ex_blob" by simp
  show ?thesis
    using multipart_single_part[OF 1 2 3 4 5 6 7 8, of new_app] by simp
qed

text \<open>
  Claim C8 as stated fails on a list of two parts, a text field and a file named
  \<^verbatim>\<open>f.png\<close>: where \<^verbatim>\<open>fetch\<close> answers, the form holds one part with neither name,
  and where \<^verbatim>\<open>fetch\<close> fails nothing is sent.
\<close>

theorem multipart_part_list_counterexample:
  "fst (put_request new_app (ex_env (Inr (FetchResponse (Inr ex_blob))) (Inr ex_created))
          ex_two_parts) =
     [FetchCall JUndefined,
      AxiosCall
        (JObj [(''method'', JStr ''post''), (''url'', JStr ''http://upstream.test/upload''),
               (''headers'', JObj [(''Content-type'', JStr ''multipart/form-data'')]),
               (''data'', JFormData [(JUndefined, ex_blob, JUndefined)]),
               (''signal'', JAbortSignal 60000)])] \<and>
   put_request new_app (ex_env (Inl ex_fetch_failed) (Inr ex_created)) ex_two_parts =
     ([FetchCall JUndefined],
      Replied \<lparr>reply_status = 400, reply_body = SentText ''fetch failed''\<rparr>)"
  by (simp add: put_request_def try_block_def multipart_branch_def convertBase64ToBlob_def
      ex_env_def ex_two_parts_def Let_def newAbortSignal_def new_app_def catch_block_def
      ex_fetch_failed_def ex_created_def end_response_def)

text \<open>
  Claim C10, amended. The multipart branch runs only when
  \<^verbatim>\<open>req.body.headers['Content-type']\<close> is the string \<^verbatim>\<open>multipart/form-data\<close>. With any
  other value there, which includes any other casing of the key or the value, every
  property of the request but \<^verbatim>\<open>signal\<close> is passed to \<^verbatim>\<open>axios\<close> as it came. With that
  value, whatever a request that reaches \<^verbatim>\<open>axios\<close> declared, its \<^verbatim>\<open>data\<close> is replaced
  by a form of exactly one part, built from \<^verbatim>\<open>data.key\<close>, \<^verbatim>\<open>data.value\<close> and
  \<^verbatim>\<open>data.name\<close>.
\<close>

theorem multipart_dispatch:
  "(FetchCall v \<in> set (fst (put_request a w body)) \<longrightarrow>
      (\<exists>hs. get_prop body ''headers'' = Inr hs \<and>
         get_prop hs ''Content-type'' = Inr (JStr ''multipart/form-data''))) \<and>
   (get_prop body ''headers'' = Inr hs \<and> get_prop hs ''Content-type'' = Inr ct \<and>
    ct \<noteq> JStr ''multipart/form-data'' \<longrightarrow>
      (\<exists>options. fst (put_request a w body) = [AxiosCall options] \<and>
         (\<forall>k. k \<noteq> ''signal'' \<longrightarrow> get_prop options k = get_prop body k))) \<and>
   (get_prop body ''headers'' = Inr hs \<and>
    get_prop hs ''Content-type'' = Inr (JStr ''multipart/form-data'') \<and>
    AxiosCall options \<in> set (fst (put_request a w body)) \<longrightarrow>
      (\<exists>d k x file n. get_prop body ''data'' = Inr d \<and> get_prop d ''key'' = Inr k \<and>
         get_prop d ''value'' = Inr x \<and> get_prop d ''name'' = Inr n \<and>
         convertBase64ToBlob w x = Inr file \<and>
         get_prop options ''data'' = Inr (JFormData [(k, file, n)])))"
proof (intro conjI impI)
  assume "FetchCall v \<in> set (fst (put_request a w body))"
  then show "\<exists>hs. get_prop body ''headers'' = Inr hs \<and>
         get_prop hs ''Content-type'' = Inr (JStr ''multipart/form-data'')"
    using fetch_only_multipart[of v a w body] by (simp add: put_request_fst)
next
  assume h: "get_prop body ''headers'' = Inr hs \<and> get_prop hs ''Content-type'' = Inr ct \<and>
    ct \<noteq> JStr ''multipart/form-data''"
  then obtain kvs where body: "body = JObj kvs"
    using headers_read_object by blast
  have "fst (put_request a w body) =
      [AxiosCall (JObj (AList.update ''signal'' (newAbortSignal a) (own_entries body)))]"
    using h try_block_plain[of body hs ct a w] by (simp add: put_request_fst)
  then show "\<exists>options. fst (put_request a w body) = [AxiosCall options] \<and>
         (\<forall>k. k \<noteq> ''signal'' \<longrightarrow> get_prop options k = get_prop body k)"
    using options_other[of _ "newAbortSignal a" kvs] by (simp add: body)
next
  assume h: "get_prop body ''headers'' = Inr hs \<and>
    get_prop hs ''Content-type'' = Inr (JStr ''multipart/form-data'') \<and>
    AxiosCall options \<in> set (fst (put_request a w body))"
  then obtain kvs where body: "body = JObj kvs"
    using headers_read_object by blast
  have tb: "try_block a w body =
    (case multipart_branch w body of
       (tr, Inl e) \<Rightarrow> (tr, Inl e)
     | (tr, Inr body') \<Rightarrow>
        (tr @ [AxiosCall (JObj (AList.update ''signal'' (newAbortSignal a) (own_entries body')))],
         case axios w (JObj (AList.update ''signal'' (newAbortSignal a) (own_entries body'))) of
           Inl e \<Rightarrow> Inl e
         | Inr result \<Rightarrow> send 200 (Data (resp_data result))))"
    using h try_block_multipart[of body hs a w] by simp
  obtain tr r where mb: "multipart_branch w body = (tr, r)"
    by (cases "multipart_branch w body")
  have notin: "AxiosCall options \<notin> set tr"
    using multipart_branch_trace[of options w body] mb by simp
  obtain body' where r: "r = Inr body'"
    and opt: "options = JObj (AList.update ''signal'' (newAbortSignal a) (own_entries body'))"
    using h notin by (cases r) (auto simp: put_request_fst tb mb)
  from mb r obtain d k x bl n where
    d: "get_prop body ''data'' = Inr d" "get_prop d ''key'' = Inr k"
       "get_prop d ''value'' = Inr x" "get_prop d ''name'' = Inr n"
       "convertBase64ToBlob w x = Inr bl"
       "body' = set_prop body ''data'' (JFormData [(k, bl, n)])"
    by (auto simp: multipart_branch_def split: sum.splits)
  have "get_prop options ''data'' = Inr (JFormData [(k, bl, n)])"
    using options_data[of "newAbortSignal a" kvs] by (simp add: opt d(6) body)
  then show "\<exists>d k x file n. get_prop body ''data'' = Inr d \<and> get_prop d ''key'' = Inr k \<and>
         get_prop d ''value'' = Inr x \<and> get_prop d ''name'' = Inr n \<and>
         convertBase64ToBlob w x = Inr file \<and>
         get_prop options ''data'' = Inr (JFormData [(k, file, n)])"
    using d by blast
qed

theorem multipart_dispatch_witness:
  "(\<exists>hs. get_prop ex_upload ''headers'' = Inr hs \<and>
      get_prop hs ''Content-type'' = Inr (JStr ''multipart/form-data'')) \<and>
   (\<exists>options.
      fst (put_request new_app (ex_env (Inr (FetchResponse (Inr ex_blob))) (Inr ex_created))
             ex_other_casing) = [AxiosCall options] \<and>
      get_prop options ''data'' = get_prop ex_other_casing ''data'') \<and>
   (\<exists>d k x file n. get_prop ex_upload ''data'' = Inr d \<and> get_prop d ''key'' = Inr k \<and>
      get_prop d ''value'' = Inr x \<and> get_prop d ''name'' = Inr n \<and>
      convertBase64ToBlob (ex_env (Inr (FetchResponse (Inr ex_blob))) (Inr ex_created)) x =
        Inr file \<and>
      get_prop ex_upload_options ''data'' = Inr (JFormData [(k, file, n)]))"
proof -
  let ?w = "ex_env (Inr (FetchResponse (Inr ex_blob))) (Inr ex_created)"
  let ?hs = "JObj [(''Content-type'', JStr ''multipart/form-data'')]"
  let ?hs' = "JObj [(''Content-Type'', JStr ''multipart/form-data'')]"
  note upload = multipart_dispatch[of "JStr ''data:image/png;base64,iVBORw==''" new_app ?w
      ex_upload ?hs "JStr ''multipart/form-data''" ex_upload_options]
  note casing = multipart_dispatch[of JUndefined new_app ?w ex_other_casing ?hs' JUndefined
      JUndefined]
  have 1: "FetchCall (JStr ''data:image/png;base64,iVBORw=='') \<in>
      set (fst (put_request new_app ?w ex_upload))"
    by (simp add: ex_upload_trace)
  have 2: "get_prop ex_other_casing ''headers'' = Inr ?hs' \<and>
      get_prop ?hs' ''Content-type'' = Inr JUndefined \<and>
      JUndefined \<noteq> JStr ''multipart/form-data''"
    by (simp add: ex_other_casing_def)
  have 3: "get_prop ex_upload ''headers'' = Inr ?hs \<and>
      get_prop ?hs ''Content-type'' = Inr (JStr ''multipart/form-data'') \<and>
      AxiosCall ex_upload_options \<in> set (fst (put_request new_app ?w ex_upload))"
    by (simp add: ex_upload_trace) (simp add: ex_upload_def)
  have a: "\<exists>hs. get_prop ex_upload ''headers'' = Inr hs \<and>
      get_prop hs ''Content-type'' = Inr (JStr ''multipart/form-data'')"
    using upload[THEN conjunct1, THEN mp, OF 1] .
  obtain options where o:
    "fst (put_request new_app ?w ex_other_casing) = [AxiosCall options]"
    "\<forall>k. k \<noteq> ''signal'' \<longrightarrow> get_prop options k = get_prop ex_other_casing k"
    using casing[THEN conjunct2, THEN conjunct1, THEN mp, OF 2] by blast
  have "''data'' \<noteq> ''signal''" by simp
  then have "get_prop options ''data'' = get_prop ex_other_casing ''data''"
    using o(2) by simp
  then have b: "\<exists>options. fst (put_request new_app ?w ex_other_casing) = [AxiosCall options] \<and>
      get_prop options ''data'' = get_prop ex_other_casing ''data''"
    using o(1) by blast
  have c: "\<exists>d k x file n. get_prop ex_upload ''data'' = Inr d \<and> get_prop d ''key'' = Inr k \<and>
      get_prop d ''value'' = Inr x \<and> get_prop d ''name'' = Inr n \<and>
      convertBase64ToBlob ?w x = Inr file \<and>
      get_prop ex_upload_options ''data'' = Inr (JFormData [(k, file, n)])"
    using upload[THEN conjunct2, THEN conjunct2, THEN mp, OF 3] .
  show ?thesis using a b c by blast
qed

text \<open>
  Claim C10 as stated fails: a request with the multipart header that declares two
  parts is not forwarded as it came. Where \<^verbatim>\<open>fetch\<close> fails it is not forwarded at
  all, and where \<^verbatim>\<open>fetch\<close> answers its \<^verbatim>\<open>data\<close> is replaced by a form.
\<close>

theorem multipart_forwarding_counterexample:
  "get_prop ex_two_parts ''data'' =
     Inr (JArr [JObj [(''key'', JStr ''key''), (''value'', JStr ''value'')],
                JObj [(''key'', JStr ''file''),
                      (''value'', JStr ''data:image/png;base64,iVBORw==''),
                      (''name'', JStr ''f.png'')]]) \<and>
   put_request new_app (ex_env (Inl ex_fetch_failed) (Inr ex_created)) ex_two_parts =
     ([FetchCall JUndefined],
      Replied \<lparr>reply_status = 400, reply_body = SentText ''fetch failed''\<rparr>) \<and>
   (\<exists>options.
      fst (put_request new_app (ex_env (Inr (FetchResponse (Inr ex_blob))) (Inr ex_created))
             ex_two_parts) = [FetchCall JUndefined, AxiosCall options] \<and>
      get_prop options ''data'' = Inr (JFormData [(JUndefined, ex_blob, JUndefined)]))"
  by (simp add: put_request_def try_block_def multipart_branch_def convertBase64ToBlob_def
      ex_env_def ex_two_parts_def Let_def newAbortSignal_def new_app_def catch_block_def
      ex_fetch_failed_def ex_created_def end_response_def)

section \<open>Properties of the collection import\<close>








section \<open>Properties of the collection builder\<close>

lemma build_ids:
  "map node_id (build mk_id spec) = map (\<lambda>(m, p). mk_id m p) (operations_of spec)"
  by (induction spec) (simp_all add: build_def operations_of_def node_of_def comp_def)

lemma ex_operations: "operations_of (ex_spec s) =
    [(''get'', ''/pets''), (''post'', ''/pets''), (''get'', ''/pets/{id}'')]"
  by (simp add: operations_of_def ex_spec_def ex_operation_def)

text \<open>
  Claim C9. The ids of the nodes that \<open>build\<close> returns are the images of the (method,
  path) pairs of the document, in the order of the document; so two documents with the
  same pairs in the same order, and two runs on one document, give the same ids.
\<close>

theorem builder_ids_deterministic:
  "map node_id (build mk_id spec) = map (\<lambda>(m, p). mk_id m p) (operations_of spec) \<and>
   (operations_of spec = operations_of spec' \<longrightarrow>
      map node_id (build mk_id spec) = map node_id (build mk_id spec'))"
  by (simp add: build_ids)

theorem builder_ids_deterministic_witness:
  "map node_id (build (\<lambda>m p. m @ '' '' @ p) (ex_spec ''first import'')) =
     [''get /pets'', ''post /pets'', ''get /pets/{id}''] \<and>
   map node_id (build (\<lambda>m p. m @ '' '' @ p) (ex_spec ''first import'')) =
     map node_id (build (\<lambda>m p. m @ '' '' @ p) (ex_spec ''second import''))"
proof -
  have h: "operations_of (ex_spec ''first import'') = operations_of (ex_spec ''second import'')"
    by (simp add: ex_operations)
  note t = builder_ids_deterministic[of "\<lambda>m p. m @ '' '' @ p" "ex_spec ''first import''"
      "ex_spec ''second import''"]
  have a: "map node_id (build (\<lambda>m p. m @ '' '' @ p) (ex_spec ''first import'')) =
     [''get /pets'', ''post /pets'', ''get /pets/{id}'']"
    using t[THEN conjunct1] by (simp add: ex_operations)
  have b: "map node_id (build (\<lambda>m p. m @ '' '' @ p) (ex_spec ''first import'')) =
     map node_id (build (\<lambda>m p. m @ '' '' @ p) (ex_spec ''second import''))"
    using t[THEN conjunct2, THEN mp, OF h] .
  show ?thesis using a b by blast
qed

end
